theory Spec2Isabelle
  imports Main "HOL-Library.AList"
begin

section \<open>The Dell PowerConnect 55xx console driver (haas/ext/switches/dell.py)\<close>

text \<open>
  The driver is Python 2 code (\<^verbatim>\<open>basestring\<close>, \<^verbatim>\<open>iteritems\<close>): a string is a byte
  string, modelled as \<^typ>\<open>string\<close>; an integer is unbounded, modelled as \<^typ>\<open>int\<close>.
  Every exception the driver can meet is a value of \<open>error\<close>; a dictionary of text
  fields is a map \<open>string \<rightharpoonup> string\<close>.
\<close>

subsection \<open>Errors\<close>

text \<open>
  \<open>KeyError\<close> (a missing dictionary key, with the key) and \<open>ValueError\<close> (a tuple
  unpacking of the wrong length) are raised by the driver's own statements;
  \<open>Pexpect_TIMEOUT\<close> and \<open>Pexpect_EOF\<close> are the two exceptions of pexpect's
  \<^verbatim>\<open>expect\<close>, which the driver never catches. \<open>ConsoleProtocolError\<close> is the error of
  the specification's taxonomy; no statement of the driver raises it.
\<close>

datatype error =
    KeyError string
  | ValueError
  | Pexpect_TIMEOUT
  | Pexpect_EOF
  | ConsoleProtocolError

subsection \<open>Python string primitives\<close>

text \<open>\<^verbatim>\<open>str.strip()\<close> without argument removes the six ASCII whitespace bytes.\<close>

definition isspace :: "char \<Rightarrow> bool" where
  "isspace c = (c \<in> set [CHR '' '', CHR 0x09, CHR 0x0A, CHR 0x0B, CHR 0x0C, CHR 0x0D])"

definition strip_chars :: "(char \<Rightarrow> bool) \<Rightarrow> string \<Rightarrow> string" where
  "strip_chars P s = rev (dropWhile P (rev (dropWhile P s)))"

definition strip :: "string \<Rightarrow> string" where
  "strip s = strip_chars isspace s"

text \<open>\<^verbatim>\<open>s.split(c)\<close> with a one-character separator: never an empty list.\<close>

fun split :: "char \<Rightarrow> string \<Rightarrow> string list" where
  "split c [] = [[]]"
| "split c (x # xs) =
     (if x = c then [] # split c xs
      else (case split c xs of
              [] \<Rightarrow> [[x]]
            | y # ys \<Rightarrow> (x # y) # ys))"

text \<open>\<^verbatim>\<open>s.split(c, 1)\<close>: at most one cut, at the first occurrence of the separator.\<close>

definition split1 :: "char \<Rightarrow> string \<Rightarrow> string list" where
  "split1 c s =
     (if c \<in> set s then [takeWhile (\<lambda>x. x \<noteq> c) s, tl (dropWhile (\<lambda>x. x \<noteq> c) s)]
      else [s])"

text \<open>
  \<^verbatim>\<open>num_re = re.compile(r'(\d+)')\<close> and \<^verbatim>\<open>re.match(num_re, s)\<close>: the match is anchored
  at the start of \<open>s\<close> and \<^verbatim>\<open>\d+\<close> is greedy, so group 1 is the longest run of
  ASCII digits at the start of \<open>s\<close>, and there is no match when that run is empty.
\<close>

definition isdigit :: "char \<Rightarrow> bool" where
  "isdigit c = (c \<in> set ''0123456789'')"

definition match_num :: "string \<Rightarrow> string option" where
  "match_num s = (let d = takeWhile isdigit s in if d = [] then None else Some d)"

text \<open>\<^verbatim>\<open>int(num_str)\<close> on a string of decimal digits.\<close>

definition digit_val :: "char \<Rightarrow> int" where
  "digit_val c = int (of_char c) - 48"

definition py_int :: "string \<Rightarrow> int" where
  "py_int s = foldl (\<lambda>a c. 10 * a + digit_val c) 0 s"

subsection \<open>The console\<close>

text \<open>
  The pexpect child is the driver's only collaborator. What the switch does is a script:
  the outcome of each successive \<^verbatim>\<open>expect\<close> call, which is either the index of the
  pattern that matched together with the matched text (\<^verbatim>\<open>console.after\<close>), or one of
  pexpect's two exceptions. \<^verbatim>\<open>pexpect.spawn\<close> is created with its default timeout, so a
  switch that sends nothing more makes the next \<^verbatim>\<open>expect\<close> raise \<^verbatim>\<open>TIMEOUT\<close>: an
  exhausted script. What the driver writes is logged in \<open>sent\<close>, a \<^verbatim>\<open>sendline\<close>
  (text and line terminator) apart from a raw \<^verbatim>\<open>send\<close>.
\<close>

datatype outcome = Matched nat string | TimedOut | Closed

datatype written = Sendline string | Send string

record console =
  script :: "outcome list"
  sent :: "written list"
  after :: string

definition sendline :: "string \<Rightarrow> console \<Rightarrow> console" where
  "sendline line c = c\<lparr>sent := sent c @ [Sendline line]\<rparr>"

definition send :: "string \<Rightarrow> console \<Rightarrow> console" where
  "send s c = c\<lparr>sent := sent c @ [Send s]\<rparr>"

text \<open>
  \<^verbatim>\<open>console.expect(...)\<close>: the index of the matched pattern and the console after the
  match, or the exception. The console is returned in both cases: an exception does not
  undo what was sent.
\<close>

definition expect :: "console \<Rightarrow> (error + nat) \<times> console" where
  "expect c =
     (case script c of
        [] \<Rightarrow> (Inl Pexpect_TIMEOUT, c)
      | Matched i a # rest \<Rightarrow> (Inr i, c\<lparr>script := rest, after := a\<rparr>)
      | TimedOut # rest \<Rightarrow> (Inl Pexpect_TIMEOUT, c\<lparr>script := rest\<rparr>)
      | Closed # rest \<Rightarrow> (Inl Pexpect_EOF, c\<lparr>script := rest\<rparr>))"

subsection \<open>The command driver\<close>

text \<open>
  A VLAN id is a string here: every command is built by \<^verbatim>\<open>'...' + vlan_id\<close>, which
  Python accepts for strings only.
\<close>

definition enter_if_prompt :: "string \<Rightarrow> console \<Rightarrow> console" where
  "enter_if_prompt interface c = sendline (''int '' @ interface) (sendline ''config'' c)"

definition exit_if_prompt :: "console \<Rightarrow> console" where
  "exit_if_prompt c = sendline ''exit'' (sendline ''exit'' c)"

definition enable_vlan :: "string \<Rightarrow> console \<Rightarrow> console" where
  "enable_vlan vlan_id c =
     sendline (''sw trunk allowed vlan add '' @ vlan_id) (sendline ''sw mode trunk'' c)"

definition disable_vlan :: "string \<Rightarrow> console \<Rightarrow> console" where
  "disable_vlan vlan_id c = sendline (''sw trunk allowed vlan remove '' @ vlan_id) c"

definition set_native :: "string option \<Rightarrow> string \<Rightarrow> console \<Rightarrow> console" where
  "set_native old new c =
     (let c1 = (case old of None \<Rightarrow> c | Some v \<Rightarrow> disable_vlan v c);
          c2 = sendline (''sw trunk native vlan '' @ new) c1
      in enable_vlan new c2)"

definition disable_native :: "string \<Rightarrow> console \<Rightarrow> console" where
  "disable_native vlan_id c = sendline ''sw trunk native vlan none'' (disable_vlan vlan_id c)"

subsection \<open>The interface-status parser\<close>

text \<open>
  The body of \<^verbatim>\<open>while True\<close> in \<^verbatim>\<open>_int_config\<close>, with its local variables \<open>k\<close> (the
  key of the last Key:Value line) and \<open>result\<close>. \<open>index\<close> is what
  \<^verbatim>\<open>console.expect(alternatives)\<close> returned: 0 the pagination banner, 1 the
  \<^verbatim>\<open>Classification rules:\<close> line, 2 a Key:Value line, 3 a continuation line; the
  \<^verbatim>\<open>if\<close>/\<^verbatim>\<open>elif\<close> chain has no \<^verbatim>\<open>else\<close>, so any other index goes round the
  loop again. \<^verbatim>\<open>k, v = after.split(':', 1)\<close> raises \<^verbatim>\<open>ValueError\<close> unless the split
  has two parts, and \<^verbatim>\<open>result[k] += after\<close> reads \<^verbatim>\<open>result[k]\<close> first.
  Each turn consumes one outcome of the script, which is the measure of termination.
\<close>

function int_config_loop ::
  "string \<Rightarrow> (string \<rightharpoonup> string) \<Rightarrow> console \<Rightarrow> (error + (string \<rightharpoonup> string)) \<times> console" where
  "int_config_loop k result c =
     (case expect c of
        (Inl e, c') \<Rightarrow> (Inl e, c')
      | (Inr index, c') \<Rightarrow>
          if index = 0 then int_config_loop k result (send '' '' c')
          else if index = 1 then (Inr result, c')
          else if index = 2 then
            (case split1 CHR '':'' (after c') of
               [k', v'] \<Rightarrow> int_config_loop k' (result(k' \<mapsto> v')) c'
             | _ \<Rightarrow> (Inl ValueError, c'))
          else if index = 3 then
            (case result k of
               None \<Rightarrow> (Inl (KeyError k), c')
             | Some old \<Rightarrow> int_config_loop k (result(k \<mapsto> old @ after c')) c')
          else int_config_loop k result c')"
  by pat_completeness auto
termination
  by (relation "measure (\<lambda>(k, result, c). length (script c))")
     (auto simp: expect_def send_def split: list.splits outcome.splits)

text \<open>
  \<^verbatim>\<open>_int_config(interface)\<close>: the command, the wait for the first Key:Value line
  (\<^verbatim>\<open>alternatives[2]\<close> alone), the loop, and the wait for the main prompt.
\<close>

definition int_config ::
  "string \<Rightarrow> console \<Rightarrow> (error + (string \<rightharpoonup> string)) \<times> console" where
  "int_config interface c =
     (case expect (sendline (''show int sw '' @ interface) c) of
        (Inl e, c1) \<Rightarrow> (Inl e, c1)
      | (Inr _, c1) \<Rightarrow>
          (case split1 CHR '':'' (after c1) of
             [k, v] \<Rightarrow>
               (case int_config_loop k [k \<mapsto> v] c1 of
                  (Inl e, c2) \<Rightarrow> (Inl e, c2)
                | (Inr result, c2) \<Rightarrow>
                    (case expect c2 of
                       (Inl e, c3) \<Rightarrow> (Inl e, c3)
                     | (Inr _, c3) \<Rightarrow> (Inr result, c3)))
           | _ \<Rightarrow> (Inl ValueError, c1)))"

subsection \<open>The VLAN extractor\<close>

type_synonym networks = "(string \<times> int) list"

definition lookup :: "(string \<rightharpoonup> string) \<Rightarrow> string \<Rightarrow> error + string" where
  "lookup v key = (case v key of None \<Rightarrow> Inl (KeyError key) | Some x \<Rightarrow> Inr x)"

text \<open>The inner loop \<^verbatim>\<open>for num_str in range_str.split('-')\<close>.\<close>

fun num_loop :: "string list \<Rightarrow> networks \<Rightarrow> networks" where
  "num_loop [] networks = networks"
| "num_loop (num_str # rest) networks =
     (case match_num (strip num_str) of
        Some g \<Rightarrow> num_loop rest (networks @ [(''vlan/'' @ g, py_int g)])
      | None \<Rightarrow> num_loop rest networks)"

text \<open>The loop \<^verbatim>\<open>for range_str in v['Trunking VLANs Enabled'].split(',')\<close>.\<close>

fun range_loop :: "string list \<Rightarrow> networks \<Rightarrow> networks" where
  "range_loop [] networks = networks"
| "range_loop (range_str # rest) networks =
     range_loop rest (num_loop (split CHR ''-'' range_str) networks)"

text \<open>The body of the loop over the ports, for one port's key/value map \<open>v\<close>.\<close>

definition port_networks :: "(string \<rightharpoonup> string) \<Rightarrow> error + networks" where
  "port_networks v =
     (case lookup v ''Trunking Native Mode VLAN'' of
        Inl e \<Rightarrow> Inl e
      | Inr nv \<Rightarrow>
          (let native = (case match_num (strip nv) of
                           Some g \<Rightarrow> Some (py_int g)
                         | None \<Rightarrow> None)
           in case lookup v ''Trunking VLANs Enabled'' of
                Inl e \<Rightarrow> Inl e
              | Inr tv \<Rightarrow>
                  (let networks = range_loop (split CHR '','' tv) []
                   in Inr (case native of
                             Some n \<Rightarrow> networks @ [(''vlan/native'', n)]
                           | None \<Rightarrow> networks))))"

subsection \<open>Command sequences\<close>

lemma sent_sendline: "sent (sendline l c) = sent c @ [Sendline l]"
  by (simp add: sendline_def)

lemma sent_enable_vlan:
  "sent (enable_vlan v c) =
     sent c @ [Sendline ''sw mode trunk'', Sendline (''sw trunk allowed vlan add '' @ v)]"
  by (simp add: enable_vlan_def sent_sendline)

lemma sent_disable_vlan:
  "sent (disable_vlan v c) = sent c @ [Sendline (''sw trunk allowed vlan remove '' @ v)]"
  by (simp add: disable_vlan_def sent_sendline)

text \<open>
  C8. Calling \<open>enable_vlan\<close> twice with the same id (in particular with \<open>10\<close>) writes
  the same two lines twice, after whatever was sent before: nothing is suppressed, and
  the function has no failing branch.
\<close>

theorem enable_vlan_twice:
  "sent (enable_vlan v (enable_vlan v c)) =
     sent c @ [Sendline ''sw mode trunk'', Sendline (''sw trunk allowed vlan add '' @ v),
               Sendline ''sw mode trunk'', Sendline (''sw trunk allowed vlan add '' @ v)]
   \<and> sent (enable_vlan ''10'' (enable_vlan ''10'' c)) =
     sent c @ [Sendline ''sw mode trunk'', Sendline ''sw trunk allowed vlan add 10'',
               Sendline ''sw mode trunk'', Sendline ''sw trunk allowed vlan add 10'']
   \<and> sent (enable_vlan ''10'' (enable_vlan ''10'' c)) =
     sent c @ (drop (length (sent c)) (sent (enable_vlan ''10'' c)))
            @ (drop (length (sent c)) (sent (enable_vlan ''10'' c)))"
  by (simp add: sent_enable_vlan)

text \<open>
  C6. \<open>set_native\<close> with old id \<open>5\<close> and new id \<open>10\<close> writes the disable command of 5,
  then the native-VLAN command of 10, then the two enable commands of 10; with no old id
  it writes the native-VLAN command of the new id and then its enable commands, and no
  disable command.
\<close>

theorem set_native_sequence:
  "sent (set_native (Some ''5'') ''10'' c) =
     sent (disable_vlan ''5'' c)
       @ [Sendline ''sw trunk native vlan 10'']
       @ drop (length (sent c)) (sent (enable_vlan ''10'' c))
   \<and> sent (set_native (Some ''5'') ''10'' c) =
     sent c @ [Sendline ''sw trunk allowed vlan remove 5'',
               Sendline ''sw trunk native vlan 10'',
               Sendline ''sw mode trunk'',
               Sendline ''sw trunk allowed vlan add 10'']
   \<and> sent (set_native None new c) =
     sent c @ [Sendline (''sw trunk native vlan '' @ new),
               Sendline ''sw mode trunk'',
               Sendline (''sw trunk allowed vlan add '' @ new)]"
  by (simp add: set_native_def sent_enable_vlan sent_disable_vlan sent_sendline)

end
